theory Spec2Isabelle
  imports Complex_Main
begin

unbundle bit_operations_syntax

section \<open>Field-boundary segmentation notebook: the embedding\<close>

text \<open>
  The notebook \<^verbatim>\<open>flevoland_field_boundary.ipynb\<close> is a straight-line script over the
  Earth Engine client. Its own code is the two functions \<^verbatim>\<open>mask_s2_clouds\<close> and
  \<^verbatim>\<open>add_ndvi\<close>, the constants, the emptiness check and the order and parameters of the
  platform calls. The platform's pointwise image operations are given their documented
  meaning per pixel; the operations whose result the script cannot determine (catalogue
  filtering, the median reducer, polygon rasterisation, classifier training, edge detection,
  vectorisation) are fields of a \<open>platform\<close> record, so every theorem below holds for
  every behaviour of those operations unless a hypothesis says otherwise.

  Numbers: Sentinel-2 surface-reflectance bands are unsigned 16-bit integers; they are only
  bit-tested, compared with 0 and converted to floating point, so they are \<open>nat\<close>.
  The platform's floating-point values are modelled as \<open>real\<close> (exact arithmetic).
\<close>

subsection \<open>Errors\<close>

datatype error =
    ValueError string     \<comment> \<open>raised by the script itself\<close>
  | EEException string    \<comment> \<open>reported by the platform\<close>

definition bind_res :: "error + 'a \<Rightarrow> ('a \<Rightarrow> error + 'b) \<Rightarrow> error + 'b" where
  "bind_res r f = (case r of Inl e \<Rightarrow> Inl e | Inr v \<Rightarrow> f v)"

fun map_res :: "('a \<Rightarrow> error + 'b) \<Rightarrow> 'a list \<Rightarrow> error + 'b list" where
  "map_res f [] = Inr []"
| "map_res f (x # xs) =
     (case f x of Inl e \<Rightarrow> Inl e
      | Inr y \<Rightarrow> (case map_res f xs of Inl e \<Rightarrow> Inl e | Inr ys \<Rightarrow> Inr (y # ys)))"

subsection \<open>Images, features and the platform\<close>

text \<open>
  A raster gives each pixel location a value or \<open>None\<close> where the pixel is masked.
  A band is a named raster; an image is its list of bands, in order. Looking a band up by
  name finds the first band of that name.
\<close>

type_synonym loc = "int \<times> int"
type_synonym 'a raster = "loc \<Rightarrow> 'a option"
type_synonym 'a band = "string \<times> 'a raster"
type_synonym 'a image = "'a band list"

datatype geometry =
    Rectangle "real list"
  | Polygon "(real \<times> real) list list"

record feature =
  geom :: geometry
  properties :: "(string \<times> nat) list"

text \<open>One sampled pixel: the properties copied from the region's feature, and the band values.\<close>

record sample =
  copied :: "(string \<times> nat) list"
  bandValues :: "(string \<times> real) list"

datatype reducer = countEvery

record vector_params =
  scale :: nat
  geometry :: geometry
  eightConnected :: bool
  labelProperty :: string
  reducer :: reducer

type_synonym classifier = "(string \<times> real) list \<Rightarrow> nat"

record platform =
  filterCollection :: "string \<Rightarrow> geometry \<Rightarrow> string \<Rightarrow> string \<Rightarrow> string \<Rightarrow> nat \<Rightarrow> nat image list"
    \<comment> \<open>catalogue id, bounds, start date, end date, property, strict upper limit\<close>
  nd_zero :: "real option"
    \<comment> \<open>what a normalized difference is where the two bands sum to zero\<close>
  median_reducer :: "real list \<Rightarrow> real"
    \<comment> \<open>the median of a non-empty list of values\<close>
  pixelsOf :: "geometry \<Rightarrow> nat \<Rightarrow> nat \<Rightarrow> loc list"
    \<comment> \<open>the pixels a region covers at a scale, under a tile scale\<close>
  smileRandomForest :: "nat \<Rightarrow> sample list \<Rightarrow> string \<Rightarrow> string list \<Rightarrow> error + classifier"
    \<comment> \<open>number of trees, training features, class property, input properties\<close>
  CannyEdgeDetector :: "nat band \<Rightarrow> real \<Rightarrow> real \<Rightarrow> real band"
    \<comment> \<open>image, threshold, sigma\<close>
  reduceToVectors :: "nat band \<Rightarrow> vector_params \<Rightarrow> feature list"

subsection \<open>The platform's pointwise operations\<close>

text \<open>\<^verbatim>\<open>image.select(name)\<close>: the band of that name; the platform reports an error when
  no band matches.\<close>

definition select1 :: "'a image \<Rightarrow> string \<Rightarrow> error + 'a band" where
  "select1 img name =
     (case map_of img name of
        None \<Rightarrow> Inl (EEException ''Image.select: no band matches'')
      | Some r \<Rightarrow> Inr (name, r))"

text \<open>\<^verbatim>\<open>image.select(names)\<close>: the named bands, in the order asked.\<close>

fun select :: "'a image \<Rightarrow> string list \<Rightarrow> error + 'a image" where
  "select img [] = Inr []"
| "select img (n # ns) =
     (case select1 img n of Inl e \<Rightarrow> Inl e
      | Inr b \<Rightarrow> (case select img ns of Inl e \<Rightarrow> Inl e | Inr bs \<Rightarrow> Inr (b # bs)))"

definition bitwiseAnd :: "nat band \<Rightarrow> nat \<Rightarrow> nat band" where
  "bitwiseAnd b c = (fst b, \<lambda>p. map_option (\<lambda>v. v AND c) (snd b p))"

definition eq_img :: "nat band \<Rightarrow> nat \<Rightarrow> nat band" where
  "eq_img b c = (fst b, \<lambda>p. map_option (\<lambda>v. if v = c then 1 else 0) (snd b p))"

text \<open>\<^verbatim>\<open>a.And(b)\<close>: 1 where both values are non-zero, else 0; masked where either is.\<close>

definition And_img :: "nat band \<Rightarrow> nat band \<Rightarrow> nat band" where
  "And_img a b =
     (fst a, \<lambda>p. case snd a p of None \<Rightarrow> None
                 | Some x \<Rightarrow> (case snd b p of None \<Rightarrow> None
                             | Some y \<Rightarrow> Some (if x \<noteq> 0 \<and> y \<noteq> 0 then 1 else 0)))"

text \<open>\<^verbatim>\<open>a.gt(c)\<close>: 1 where the value is greater than \<open>c\<close>, else 0, as an integer band.\<close>

definition gt_img :: "('a::linorder) band \<Rightarrow> 'a \<Rightarrow> nat band" where
  "gt_img b c = (fst b, \<lambda>p. map_option (\<lambda>v. if c < v then 1 else 0) (snd b p))"

text \<open>\<^verbatim>\<open>image.updateMask(mask)\<close>: every band keeps its pixel where the mask is non-zero and
  loses it where the mask is zero or itself masked.\<close>

definition updateMask :: "'a image \<Rightarrow> nat band \<Rightarrow> 'a image" where
  "updateMask img msk =
     map (\<lambda>(n, r). (n, \<lambda>p. case snd msk p of None \<Rightarrow> None
                          | Some m \<Rightarrow> if m \<noteq> 0 then r p else None)) img"

text \<open>\<^verbatim>\<open>image.divide(c)\<close>: every band divided by the constant, as floating point (the
  platform gives 0 for a division by 0, as HOL's division does).\<close>

definition divide_img :: "nat image \<Rightarrow> nat \<Rightarrow> real image" where
  "divide_img img c = map (\<lambda>(n, r). (n, \<lambda>p. map_option (\<lambda>v. real v / real c) (r p))) img"

text \<open>\<^verbatim>\<open>image.normalizedDifference([a, b])\<close>: the band \<^verbatim>\<open>nd\<close> with \<open>(a - b) / (a + b)\<close>;
  masked where either input is masked or negative.\<close>

definition nd_pixel :: "real option \<Rightarrow> real option \<Rightarrow> real option \<Rightarrow> real option" where
  "nd_pixel zero a b =
     (case a of None \<Rightarrow> None
      | Some x \<Rightarrow> (case b of None \<Rightarrow> None
                  | Some y \<Rightarrow> if x < 0 \<or> y < 0 then None
                             else if x + y = 0 then zero
                             else Some ((x - y) / (x + y))))"

fun normalizedDifference :: "real option \<Rightarrow> real image \<Rightarrow> string list \<Rightarrow> error + real band" where
  "normalizedDifference zero img [a, b] =
     (case select1 img a of Inl e \<Rightarrow> Inl e
      | Inr ba \<Rightarrow> (case select1 img b of Inl e \<Rightarrow> Inl e
                  | Inr bb \<Rightarrow> Inr (''nd'', \<lambda>p. nd_pixel zero (snd ba p) (snd bb p))))"
| "normalizedDifference zero img names =
     Inl (EEException ''Image.normalizedDifference: two band names expected'')"

definition rename :: "'a band \<Rightarrow> string \<Rightarrow> 'a band" where
  "rename b name = (name, snd b)"

text \<open>\<^verbatim>\<open>image.addBands(b)\<close> appends the band. Were the name taken already, the platform
  would add the new band under a suffixed name (\<^verbatim>\<open>NDVI_1\<close>) and keep the old band under
  the name; here the new band is appended under the same name, so the list of band names
  differs in that case, while a lookup by name finds the old band in both.\<close>

definition addBands :: "'a image \<Rightarrow> 'a band \<Rightarrow> 'a image" where
  "addBands img b = img @ [b]"

text \<open>\<^verbatim>\<open>collection.median()\<close>: for each band of the first image, per pixel, the median of
  the unmasked values of that band across the collection; masked where there is none.\<close>

definition stack :: "'a image list \<Rightarrow> string \<Rightarrow> loc \<Rightarrow> 'a list" where
  "stack imgs n p =
     List.map_filter (\<lambda>img. case map_of img n of None \<Rightarrow> None | Some r \<Rightarrow> r p) imgs"

definition median :: "(real list \<Rightarrow> real) \<Rightarrow> real image list \<Rightarrow> real image" where
  "median med imgs =
     (case imgs of [] \<Rightarrow> []
      | first # _ \<Rightarrow>
          map (\<lambda>(n, _). (n, \<lambda>p. case stack imgs n p of [] \<Rightarrow> None
                                | v # vs \<Rightarrow> Some (med (v # vs)))) first)"

text \<open>The values of all bands at a pixel, or \<open>None\<close> when one of them is masked.\<close>

fun pixel_values :: "'a image \<Rightarrow> loc \<Rightarrow> (string \<times> 'a) list option" where
  "pixel_values [] p = Some []"
| "pixel_values ((n, r) # bs) p =
     (case r p of None \<Rightarrow> None
      | Some v \<Rightarrow> map_option (\<lambda>vs. (n, v) # vs) (pixel_values bs p))"

text \<open>\<^verbatim>\<open>image.sampleRegions(collection, properties, scale, tileScale)\<close>: one sample per
  pixel a region covers, leaving out the pixels with a masked band; each sample carries the
  listed properties of its region's feature and the band values.\<close>

definition sampleRegion ::
  "platform \<Rightarrow> real image \<Rightarrow> string list \<Rightarrow> nat \<Rightarrow> nat \<Rightarrow> feature \<Rightarrow> sample list" where
  "sampleRegion P img props sc tileScale f =
     List.map_filter
       (\<lambda>p. map_option
              (\<lambda>vs. \<lparr>copied = filter (\<lambda>(k, v). k \<in> set props) (properties f), bandValues = vs\<rparr>)
              (pixel_values img p))
       (pixelsOf P (geom f) sc tileScale)"

definition sampleRegions ::
  "platform \<Rightarrow> real image \<Rightarrow> feature list \<Rightarrow> string list \<Rightarrow> nat \<Rightarrow> nat \<Rightarrow> sample list" where
  "sampleRegions P img collection props sc tileScale =
     concat (map (sampleRegion P img props sc tileScale) collection)"

text \<open>\<^verbatim>\<open>image.classify(classifier)\<close>: the band \<^verbatim>\<open>classification\<close>, the classifier's label
  of each pixel whose bands are all unmasked.\<close>

definition classify :: "real image \<Rightarrow> classifier \<Rightarrow> nat band" where
  "classify img c = (''classification'', \<lambda>p. map_option c (pixel_values img p))"

subsection \<open>Section 2 of the notebook: project configuration\<close>

definition AOI :: geometry where
  "AOI = Rectangle [5.3, 52.4, 5.7, 52.6]"

definition START_DATE :: string where
  "START_DATE = ''2022-07-01''"

definition END_DATE :: string where
  "END_DATE = ''2022-07-31''"

text \<open>Blue, green, red, near-infrared.\<close>

definition BANDS :: "string list" where
  "BANDS = [''B2'', ''B3'', ''B4'', ''B8'']"

definition FEATURE_BANDS :: "string list" where
  "FEATURE_BANDS = BANDS @ [''NDVI'']"

text \<open>The dictionary \<^verbatim>\<open>CLASSES\<close> has the two literal keys \<^verbatim>\<open>'Field'\<close> and
  \<^verbatim>\<open>'Non-Field'\<close>, and is only read at those.\<close>

datatype class_name = Field | Non_Field

record class_info =
  val :: nat
  color :: string

fun CLASSES :: "class_name \<Rightarrow> class_info" where
  "CLASSES Field = \<lparr>val = 1, color = ''green''\<rparr>"
| "CLASSES Non_Field = \<lparr>val = 0, color = ''gray''\<rparr>"

definition CLASS_PROPERTY :: string where
  "CLASS_PROPERTY = ''landcover''"

subsection \<open>Section 3: image and feature preparation\<close>

definition mask_s2_clouds :: "nat image \<Rightarrow> error + real image" where
  "mask_s2_clouds img =
     (case select1 img ''QA60'' of Inl e \<Rightarrow> Inl e
      | Inr qa \<Rightarrow>
          (let cloud_bit_mask = push_bit 10 1;
               cirrus_bit_mask = push_bit 11 1;
               msk = And_img (eq_img (bitwiseAnd qa cloud_bit_mask) 0)
                             (eq_img (bitwiseAnd qa cirrus_bit_mask) 0)
           in Inr (divide_img (updateMask img msk) 10000)))"

definition add_ndvi :: "platform \<Rightarrow> real image \<Rightarrow> error + real image" where
  "add_ndvi P img =
     (case normalizedDifference (nd_zero P) img [''B8'', ''B4''] of Inl e \<Rightarrow> Inl e
      | Inr nd \<Rightarrow> Inr (addBands img (rename nd ''NDVI'')))"

definition s2_collection :: "platform \<Rightarrow> nat image list" where
  "s2_collection P =
     filterCollection P ''COPERNICUS/S2_SR_HARMONIZED'' AOI START_DATE END_DATE
       ''CLOUDY_PIXEL_PERCENTAGE'' 10"

definition composite_image :: "platform \<Rightarrow> error + real image" where
  "composite_image P =
     bind_res (map_res mask_s2_clouds (s2_collection P)) (\<lambda>masked.
     bind_res (map_res (add_ndvi P) masked) (\<lambda>with_ndvi.
     select (median (median_reducer P) with_ndvi) FEATURE_BANDS))"

subsection \<open>Section 4: ground truth and training samples\<close>

definition ground_truth :: "feature list" where
  "ground_truth =
    [\<lparr>geom = Polygon [[(5.45, 52.55), (5.45, 52.54), (5.46, 52.54), (5.46, 52.55)]],
      properties = [(''landcover'', val (CLASSES Field))]\<rparr>,
     \<lparr>geom = Polygon [[(5.55, 52.48), (5.55, 52.47), (5.56, 52.47), (5.56, 52.48)]],
      properties = [(''landcover'', val (CLASSES Field))]\<rparr>,
     \<lparr>geom = Polygon [[(5.34, 52.43), (5.34, 52.42), (5.35, 52.42), (5.35, 52.43)]],
      properties = [(''landcover'', val (CLASSES Non_Field))]\<rparr>,
     \<lparr>geom = Polygon [[(5.65, 52.52), (5.65, 52.51), (5.66, 52.51), (5.66, 52.52)]],
      properties = [(''landcover'', val (CLASSES Non_Field))]\<rparr>]"

definition training_data :: "platform \<Rightarrow> error + sample list" where
  "training_data P =
     bind_res (composite_image P) (\<lambda>img.
     Inr (sampleRegions P img ground_truth [CLASS_PROPERTY] 10 4))"

subsection \<open>Section 5: supervised classification\<close>

definition classifier :: "platform \<Rightarrow> error + classifier" where
  "classifier P =
     bind_res (training_data P) (\<lambda>features.
     smileRandomForest P 20 features CLASS_PROPERTY FEATURE_BANDS)"

definition classification_map :: "platform \<Rightarrow> error + nat band" where
  "classification_map P =
     bind_res (composite_image P) (\<lambda>img.
     bind_res (classifier P) (\<lambda>c. Inr (classify img c)))"

subsection \<open>Section 6: edge detection and vectorisation\<close>

definition edges :: "platform \<Rightarrow> error + real band" where
  "edges P = bind_res (classification_map P) (\<lambda>m. Inr (CannyEdgeDetector P m 0.1 1))"

definition binary_edges :: "platform \<Rightarrow> error + nat band" where
  "binary_edges P = bind_res (edges P) (\<lambda>e. Inr (gt_img e 0))"

definition field_boundaries :: "platform \<Rightarrow> error + feature list" where
  "field_boundaries P =
     bind_res (binary_edges P) (\<lambda>b.
     Inr (reduceToVectors P b
            \<lparr>scale = 10, geometry = AOI, eightConnected = True,
             labelProperty = ''label'', reducer = countEvery\<rparr>))"

subsection \<open>The script as a whole\<close>

text \<open>
  The script prints a line as it enters each section and raises \<^verbatim>\<open>ValueError\<close> when the
  filtered collection is empty. A run is the lines printed and either the error raised or
  the three artifacts. The platform evaluates lazily, so an artifact is a result that holds
  the platform's error when its computation fails there. Section 7 only renders the
  artifacts on a map and is left out.
\<close>

definition digit :: "nat \<Rightarrow> char" where
  "digit d = char_of (48 + d)"

function str :: "nat \<Rightarrow> string" where
  "str n = (if n < 10 then [digit n] else str (n div 10) @ [digit (n mod 10)])"
  by pat_completeness auto
termination
  by (relation "measure id") auto

declare str.simps [simp del]

record artifacts =
  composite :: "error + real image"
  classification :: "error + nat band"
  boundaries :: "error + feature list"

definition pipeline :: "platform \<Rightarrow> string list \<times> (error + artifacts)" where
  "pipeline P =
     (let out = [CHR 0x0A # ''Step 2: Configuring project parameters...'',
                 CHR 0x0A # ''Step 3: Preparing Sentinel-2 image and features...''];
          collection_size = length (s2_collection P);
          out = out @ [''   - Found '' @ str collection_size @ '' images for the composite.'']
      in if collection_size = 0
         then (out, Inl (ValueError
                 ''The GEE image collection is empty. Try expanding the date range.''))
         else (out @
                 [CHR 0x0A # ''Step 4: Creating ground truth polygons for supervised segmentation...'',
                  CHR 0x0A # ''Step 5: Training classifier and creating a simplified segmentation map...'',
                  CHR 0x0A # ''Step 6: Running edge detection and vectorizing boundaries...''],
               Inr \<lparr>composite = composite_image P,
                    classification = classification_map P,
                    boundaries = field_boundaries P\<rparr>))"

subsection \<open>Definitions used to state the properties\<close>

text \<open>The rescaled value of band \<open>b\<close> of a stored scene at a pixel: the stored value
  divided by 10000 where the quality word is present with neither bit 10 nor bit 11 set, and
  nothing elsewhere.\<close>

definition reflectance :: "nat image \<Rightarrow> string \<Rightarrow> loc \<Rightarrow> real option" where
  "reflectance img b p =
     (case map_of img ''QA60'' of None \<Rightarrow> None
      | Some qa \<Rightarrow>
          (case qa p of None \<Rightarrow> None
           | Some q \<Rightarrow>
               if bit q 10 \<or> bit q 11 then None
               else (case map_of img b of None \<Rightarrow> None
                     | Some r \<Rightarrow> map_option (\<lambda>v. real v / 10000) (r p))))"

text \<open>The mask image \<^verbatim>\<open>mask_s2_clouds\<close> builds from the quality band, with the two
  bit masks evaluated.\<close>

definition cloud_mask :: "nat band \<Rightarrow> nat band" where
  "cloud_mask qa = And_img (eq_img (bitwiseAnd qa 1024) 0) (eq_img (bitwiseAnd qa 2048) 0)"

text \<open>A scene after \<^verbatim>\<open>mask_s2_clouds\<close> and \<^verbatim>\<open>add_ndvi\<close>, where both succeed.\<close>

definition prepared :: "platform \<Rightarrow> nat image \<Rightarrow> real image" where
  "prepared P img = projr (bind_res (mask_s2_clouds img) (add_ndvi P))"

subsection \<open>A small platform on which the definitions are evaluated\<close>

text \<open>Two constant scenes, one clear and one flagged as cloud (bit 10), and a platform that
  returns them, takes the upper median, rasterises every region to the pixel \<open>(0, 0)\<close>,
  classifies every pixel with the label of the first training sample, and answers the edge
  detector and the vectoriser with fixed shapes.\<close>

definition clear_scene :: "nat image" where
  "clear_scene =
     [(''B2'', \<lambda>p. Some 600), (''B3'', \<lambda>p. Some 800), (''B4'', \<lambda>p. Some 2000),
      (''B8'', \<lambda>p. Some 5000), (''QA60'', \<lambda>p. Some 0)]"

definition cloudy_scene :: "nat image" where
  "cloudy_scene =
     [(''B2'', \<lambda>p. Some 9000), (''B3'', \<lambda>p. Some 9000), (''B4'', \<lambda>p. Some 9000),
      (''B8'', \<lambda>p. Some 9000), (''QA60'', \<lambda>p. Some 1024)]"

definition demo_platform :: platform where
  "demo_platform =
     \<lparr>filterCollection = (\<lambda>_ _ _ _ _ _. [clear_scene, cloudy_scene]),
      nd_zero = None,
      median_reducer = (\<lambda>vs. sort vs ! (length vs div 2)),
      pixelsOf = (\<lambda>_ _ _. [(0, 0)]),
      smileRandomForest = (\<lambda>_ features cp _.
         case features of [] \<Rightarrow> Inl (EEException ''no training data'')
         | s # _ \<Rightarrow> (case map_of (copied s) cp of
                       None \<Rightarrow> Inl (EEException ''no class property'')
                     | Some l \<Rightarrow> Inr (\<lambda>_. l))),
      CannyEdgeDetector = (\<lambda>m _ _.
         (''edges'', \<lambda>p. if p = (0, 0) then map_option real (snd m p) else Some (- 1))),
      reduceToVectors = (\<lambda>b prm.
         [\<lparr>geom = geometry prm, properties = [(labelProperty prm, 1), (''count'', 1)]\<rparr>])\<rparr>"

definition empty_platform :: platform where
  "empty_platform = demo_platform\<lparr>filterCollection := (\<lambda>_ _ _ _ _ _. [])\<rparr>"





section \<open>Properties\<close>

subsection \<open>Masking and rescaling\<close>

lemma map_of_updateMask:
  "map_of (updateMask img msk) n =
     map_option (\<lambda>r p. case snd msk p of None \<Rightarrow> None | Some m \<Rightarrow> if m \<noteq> 0 then r p else None)
       (map_of img n)"
  unfolding updateMask_def by (simp only: map_of_map comp_apply)

lemma map_of_divide_img:
  "map_of (divide_img img c) n =
     map_option (\<lambda>r p. map_option (\<lambda>v. real v / real c) (r p)) (map_of img n)"
  unfolding divide_img_def by (simp only: map_of_map comp_apply)

lemma cloud_test: "((q::nat) AND 1024 = 0) = (\<not> bit q 10)"
proof -
  have "(1024::nat) = 2 ^ 10" by simp
  then show ?thesis by (simp only: and_exp_eq_0_iff_not_bit)
qed

lemma cirrus_test: "((q::nat) AND 2048 = 0) = (\<not> bit q 11)"
proof -
  have "(2048::nat) = 2 ^ 11" by simp
  then show ?thesis by (simp only: and_exp_eq_0_iff_not_bit)
qed

lemma cloud_mask_pixel:
  "snd (cloud_mask qa) p = map_option (\<lambda>q. if bit q 10 \<or> bit q 11 then 0 else 1) (snd qa p)"
proof (cases "snd qa p")
  case None
  then show ?thesis by (simp add: cloud_mask_def And_img_def eq_img_def bitwiseAnd_def)
next
  case (Some q)
  have a: "snd (eq_img (bitwiseAnd qa 1024) 0) p = Some (if bit q 10 then 0 else 1)"
    using Some by (simp add: eq_img_def bitwiseAnd_def cloud_test)
  have b: "snd (eq_img (bitwiseAnd qa 2048) 0) p = Some (if bit q 11 then 0 else 1)"
    using Some by (simp add: eq_img_def bitwiseAnd_def cirrus_test)
  show ?thesis by (simp add: cloud_mask_def And_img_def a b Some)
qed

lemma mask_s2_clouds_Inr:
  assumes "map_of img ''QA60'' = Some qa"
  shows "mask_s2_clouds img = Inr (divide_img (updateMask img (cloud_mask (''QA60'', qa))) 10000)"
  using assms by (simp add: mask_s2_clouds_def select1_def cloud_mask_def)

lemma mask_s2_clouds_band:
  assumes "map_of img ''QA60'' = Some qa" and "mask_s2_clouds img = Inr out"
  shows "map_of out n =
           map_option (\<lambda>r p. case qa p of None \<Rightarrow> None
                             | Some q \<Rightarrow> if bit q 10 \<or> bit q 11 then None
                                         else map_option (\<lambda>v. real v / 10000) (r p))
             (map_of img n)"
proof -
  have out: "out = divide_img (updateMask img (cloud_mask (''QA60'', qa))) 10000"
    using assms mask_s2_clouds_Inr by simp
  show ?thesis
  proof (cases "map_of img n")
    case None
    then show ?thesis by (simp add: out map_of_divide_img map_of_updateMask)
  next
    case (Some r)
    have "(\<lambda>p. map_option (\<lambda>v. real v / 10000)
                 (case snd (cloud_mask (''QA60'', qa)) p of None \<Rightarrow> None
                  | Some m \<Rightarrow> if m \<noteq> 0 then r p else None))
          = (\<lambda>p. case qa p of None \<Rightarrow> None
                  | Some q \<Rightarrow> if bit q 10 \<or> bit q 11 then None
                              else map_option (\<lambda>v. real v / 10000) (r p))"
      by (rule ext) (simp add: cloud_mask_pixel split: option.splits)
    then show ?thesis
      by (simp add: out map_of_divide_img map_of_updateMask Some)
  qed
qed

lemma mask_s2_clouds_reflectance:
  assumes "map_of img ''QA60'' = Some qa" and "mask_s2_clouds img = Inr out"
  shows "(case map_of out b of None \<Rightarrow> None | Some r \<Rightarrow> r p) = reflectance img b p"
  using assms(1) by (simp add: mask_s2_clouds_band [OF assms] reflectance_def split: option.splits)

subsection \<open>Selecting bands, the median composite\<close>

lemma map_res_Inr:
  "(\<And>x. x \<in> set xs \<Longrightarrow> f x = Inr (g x)) \<Longrightarrow> map_res f xs = Inr (map g xs)"
  by (induction xs) simp_all

lemma select_Inr:
  "(\<And>n. n \<in> set ns \<Longrightarrow> map_of img n \<noteq> None) \<Longrightarrow> \<exists>out. select img ns = Inr out"
  by (induction ns) (auto simp: select1_def split: option.splits sum.splits)

lemma select_band:
  "select img ns = Inr out \<Longrightarrow> n \<in> set ns \<Longrightarrow> map_of out n = map_of img n"
  by (induction ns arbitrary: out) (auto simp: select1_def split: option.splits sum.splits)


lemma map_of_named:
  "map_of (map (\<lambda>(n, _). (n, F n)) bs) k = map_option (\<lambda>_. F k) (map_of bs k)"
  by (induction bs) auto

lemma median_band:
  "map_of (median med (first # rest)) n =
     map_option (\<lambda>_ p. case stack (first # rest) n p of [] \<Rightarrow> None
                        | v # vs \<Rightarrow> Some (med (v # vs)))
       (map_of first n)"
  unfolding median_def by (simp only: list.case map_of_named)

lemma stack_map:
  "stack (map h imgs) n p =
     List.map_filter (\<lambda>img. case map_of (h img) n of None \<Rightarrow> None | Some r \<Rightarrow> r p) imgs"
  unfolding stack_def by (induction imgs) (simp_all split: option.splits)

lemma add_ndvi_Inr:
  assumes "map_of img ''B8'' = Some b8" and "map_of img ''B4'' = Some b4"
  shows "add_ndvi P img =
           Inr (img @ [(''NDVI'', \<lambda>p. nd_pixel (nd_zero P) (b8 p) (b4 p))])"
  using assms by (simp add: add_ndvi_def select1_def addBands_def rename_def)

lemma add_ndvi_band:
  assumes "add_ndvi P img = Inr out" and "n \<noteq> ''NDVI''"
  shows "map_of out n = map_of img n"
  using assms
  by (auto simp: add_ndvi_def select1_def addBands_def rename_def map_add_def
      split: option.splits sum.splits)

lemma map_filter_eq:
  "(\<And>x. x \<in> set xs \<Longrightarrow> f x = g x) \<Longrightarrow> List.map_filter f xs = List.map_filter g xs"
  by (induction xs) (simp_all split: option.splits)

lemma mask_s2_clouds_has_band:
  assumes "map_of img ''QA60'' \<noteq> None" and "map_of img n \<noteq> None"
  shows "\<exists>out r. mask_s2_clouds img = Inr out \<and> map_of out n = Some r"
proof -
  from assms(1) obtain qa where qa: "map_of img ''QA60'' = Some qa" by auto
  from assms(2) obtain r where r: "map_of img n = Some r" by auto
  have m: "mask_s2_clouds img = Inr (divide_img (updateMask img (cloud_mask (''QA60'', qa))) 10000)"
    by (rule mask_s2_clouds_Inr [OF qa])
  show ?thesis using mask_s2_clouds_band [OF qa m, of n] m r by simp
qed

lemma scene_processed:
  assumes "\<And>n. n \<in> set (''QA60'' # BANDS) \<Longrightarrow> map_of img n \<noteq> None"
  shows "\<exists>m a. mask_s2_clouds img = Inr m \<and> add_ndvi P m = Inr a \<and>
           map_of a ''NDVI'' \<noteq> None \<and>
           (\<forall>b\<in>set BANDS. \<forall>p. map_of a b \<noteq> None \<and>
              (case map_of a b of None \<Rightarrow> None | Some r \<Rightarrow> r p) = reflectance img b p)"
proof -
  have q: "map_of img ''QA60'' \<noteq> None" using assms by simp
  then obtain qa where qa: "map_of img ''QA60'' = Some qa" by auto
  have "map_of img ''B8'' \<noteq> None" using assms by (simp add: BANDS_def)
  from mask_s2_clouds_has_band [OF q this]
  obtain m b8 where m: "mask_s2_clouds img = Inr m" and b8: "map_of m ''B8'' = Some b8" by auto
  have "map_of img ''B4'' \<noteq> None" using assms by (simp add: BANDS_def)
  from mask_s2_clouds_has_band [OF q this] m
  obtain b4 where b4: "map_of m ''B4'' = Some b4" by auto
  define a where "a = m @ [(''NDVI'', \<lambda>p. nd_pixel (nd_zero P) (b8 p) (b4 p))]"
  have a: "add_ndvi P m = Inr a" unfolding a_def by (rule add_ndvi_Inr [OF b8 b4])
  have ndvi: "map_of a ''NDVI'' \<noteq> None" by (auto simp: a_def map_add_def split: option.splits)
  have "map_of a b \<noteq> None \<and> (case map_of a b of None \<Rightarrow> None | Some r \<Rightarrow> r p) = reflectance img b p"
    if b: "b \<in> set BANDS" for b p
  proof -
    have ne: "b \<noteq> ''NDVI''" using b by (auto simp: BANDS_def)
    have eq: "map_of a b = map_of m b" by (rule add_ndvi_band [OF a ne])
    have "map_of img b \<noteq> None" using assms b by simp
    from mask_s2_clouds_has_band [OF q this] m have "map_of m b \<noteq> None" by auto
    then show ?thesis using mask_s2_clouds_reflectance [OF qa m, where b = b and p = p] eq by simp
  qed
  then show ?thesis using m a ndvi by blast
qed

lemma composite_unfold:
  "composite_image P =
     bind_res (bind_res (map_res mask_s2_clouds (s2_collection P)) (map_res (add_ndvi P)))
       (\<lambda>w. select (median (median_reducer P) w) FEATURE_BANDS)"
  by (simp add: composite_image_def bind_res_def split: sum.splits)

lemma prepared_collection:
  assumes "\<And>img n. img \<in> set imgs \<Longrightarrow> n \<in> set (''QA60'' # BANDS) \<Longrightarrow> map_of img n \<noteq> None"
  shows "bind_res (map_res mask_s2_clouds imgs) (map_res (add_ndvi P)) = Inr (map (prepared P) imgs)"
  using assms
proof (induction imgs)
  case Nil
  then show ?case by (simp add: bind_res_def)
next
  case (Cons img imgs)
  have "\<And>n. n \<in> set (''QA60'' # BANDS) \<Longrightarrow> map_of img n \<noteq> None" using Cons.prems by simp
  from scene_processed [OF this, of P]
  obtain m a where m: "mask_s2_clouds img = Inr m" and a: "add_ndvi P m = Inr a" by blast
  have p: "prepared P img = a" by (simp add: prepared_def bind_res_def m a)
  have "bind_res (map_res mask_s2_clouds imgs) (map_res (add_ndvi P)) = Inr (map (prepared P) imgs)"
    using Cons by simp
  then show ?case
    by (auto simp: bind_res_def m a p split: sum.splits)
qed

lemma prepared_band:
  assumes "\<And>n. n \<in> set (''QA60'' # BANDS) \<Longrightarrow> map_of img n \<noteq> None" and "b \<in> set BANDS"
  shows "map_of (prepared P img) ''NDVI'' \<noteq> None"
    and "map_of (prepared P img) b \<noteq> None"
    and "(case map_of (prepared P img) b of None \<Rightarrow> None | Some r \<Rightarrow> r p) = reflectance img b p"
proof -
  from scene_processed [OF assms(1), of P]
  obtain m a where m: "mask_s2_clouds img = Inr m" and a: "add_ndvi P m = Inr a"
    and n: "map_of a ''NDVI'' \<noteq> None"
    and r: "\<forall>b\<in>set BANDS. \<forall>p. map_of a b \<noteq> None \<and>
              (case map_of a b of None \<Rightarrow> None | Some r \<Rightarrow> r p) = reflectance img b p"
    by blast
  have p: "prepared P img = a" by (simp add: prepared_def bind_res_def m a)
  show "map_of (prepared P img) ''NDVI'' \<noteq> None" using n p by simp
  show "map_of (prepared P img) b \<noteq> None" using r p assms(2) by simp
  show "(case map_of (prepared P img) b of None \<Rightarrow> None | Some r \<Rightarrow> r p) = reflectance img b p"
    using r [rule_format, OF assms(2), of p] p by simp
qed

text \<open>
  Claim C10. \<^verbatim>\<open>mask_s2_clouds\<close> divides every band of every scene by 10000 besides
  masking it, so each of the bands B2, B3, B4 and B8 of the composite is, per pixel, the
  median of the rescaled values of the scenes the mask keeps there (masked where it keeps
  none). A stored value \<open>v\<close> becomes \<open>v / 10000\<close>, which lies in the unit interval
  for stored values up to 10000.
\<close>

theorem composite_is_median_of_rescaled:
  assumes ne: "s2_collection P \<noteq> []"
    and bands: "\<And>img n. img \<in> set (s2_collection P) \<Longrightarrow> n \<in> set (''QA60'' # BANDS) \<Longrightarrow>
                  map_of img n \<noteq> None"
    and b: "b \<in> set BANDS"
  shows "(\<forall>img\<in>set (s2_collection P). \<exists>out. mask_s2_clouds img = Inr out \<and>
            (\<forall>n p. (case map_of out n of None \<Rightarrow> None | Some r \<Rightarrow> r p) = reflectance img n p)) \<and>
         (\<exists>cimg r. composite_image P = Inr cimg \<and> map_of cimg b = Some r \<and>
           (\<forall>p. r p = (case List.map_filter (\<lambda>img. reflectance img b p) (s2_collection P) of
                         [] \<Rightarrow> None
                       | v # vs \<Rightarrow> Some (median_reducer P (v # vs)))))"
proof (rule conjI)
  show "\<forall>img\<in>set (s2_collection P). \<exists>out. mask_s2_clouds img = Inr out \<and>
            (\<forall>n p. (case map_of out n of None \<Rightarrow> None | Some r \<Rightarrow> r p) = reflectance img n p)"
  proof
    fix img assume "img \<in> set (s2_collection P)"
    then have "map_of img ''QA60'' \<noteq> None" using bands by simp
    then obtain qa where qa: "map_of img ''QA60'' = Some qa" by auto
    note m = mask_s2_clouds_Inr [OF qa]
    show "\<exists>out. mask_s2_clouds img = Inr out \<and>
            (\<forall>n p. (case map_of out n of None \<Rightarrow> None | Some r \<Rightarrow> r p) = reflectance img n p)"
      using m mask_s2_clouds_reflectance [OF qa m] by blast
  qed
next
  obtain first rest where sc: "s2_collection P = first # rest"
    using ne by (cases "s2_collection P") auto
  let ?prep = "map (prepared P) (first # rest)"
  have "bind_res (map_res mask_s2_clouds (first # rest)) (map_res (add_ndvi P)) = Inr ?prep"
    by (rule prepared_collection) (use bands sc in simp)
  then have cimg: "composite_image P = select (median (median_reducer P) ?prep) FEATURE_BANDS"
    by (simp add: composite_unfold sc) (simp add: bind_res_def)
  have first: "\<And>n. n \<in> set (''QA60'' # BANDS) \<Longrightarrow> map_of first n \<noteq> None"
    using bands sc by simp
  have mb: "map_of (median (median_reducer P) ?prep) n \<noteq> None" if "n \<in> set FEATURE_BANDS" for n
  proof (cases "n = ''NDVI''")
    case True
    then show ?thesis using prepared_band(1) [OF first b, of P] by (simp add: median_band)
  next
    case False
    then have "n \<in> set BANDS" using that by (simp add: FEATURE_BANDS_def)
    from prepared_band(2) [OF first this, of P] show ?thesis by (simp add: median_band)
  qed
  from select_Inr [of FEATURE_BANDS, OF mb]
  obtain out where out: "select (median (median_reducer P) ?prep) FEATURE_BANDS = Inr out"
    by blast
  have bf: "b \<in> set FEATURE_BANDS" using b by (simp add: FEATURE_BANDS_def)
  obtain r0 where r0: "map_of (prepared P first) b = Some r0"
    using prepared_band(2) [OF first b, of P] by auto
  have st: "stack ?prep b p = List.map_filter (\<lambda>img. reflectance img b p) (first # rest)" for p
    unfolding stack_map
  proof (rule map_filter_eq)
    fix img assume "img \<in> set (first # rest)"
    then have "\<And>n. n \<in> set (''QA60'' # BANDS) \<Longrightarrow> map_of img n \<noteq> None"
      using bands sc by simp
    from prepared_band(3) [OF this b]
    show "(case map_of (prepared P img) b of None \<Rightarrow> None | Some r \<Rightarrow> r p) = reflectance img b p" .
  qed
  have "map_of out b = map_of (median (median_reducer P) ?prep) b"
    by (rule select_band [OF out bf])
  also have "\<dots> = Some (\<lambda>p. case stack ?prep b p of [] \<Rightarrow> None
                            | v # vs \<Rightarrow> Some (median_reducer P (v # vs)))"
    using r0 by (simp add: median_band)
  finally show "\<exists>cimg r. composite_image P = Inr cimg \<and> map_of cimg b = Some r \<and>
           (\<forall>p. r p = (case List.map_filter (\<lambda>img. reflectance img b p) (s2_collection P) of
                         [] \<Rightarrow> None
                       | v # vs \<Rightarrow> Some (median_reducer P (v # vs))))"
    using cimg out st sc by simp
qed

lemma demo_collection: "s2_collection demo_platform = [clear_scene, cloudy_scene]"
  by (simp add: s2_collection_def demo_platform_def)

subsection \<open>Evaluating the small platform\<close>

lemma demo_fields:
  "nd_zero demo_platform = None"
  "median_reducer demo_platform vs = sort vs ! (length vs div 2)"
  "pixelsOf demo_platform g sc ts = [(0, 0)]"
  "CannyEdgeDetector demo_platform m t sg =
     (''edges'', \<lambda>p. if p = (0, 0) then map_option real (snd m p) else Some (- 1))"
  "reduceToVectors demo_platform b prm =
     [\<lparr>geom = geometry prm, properties = [(labelProperty prm, 1), (''count'', 1)]\<rparr>]"
  by (simp_all add: demo_platform_def)

lemma demo_forest:
  "smileRandomForest demo_platform n (s # ss) cp ips =
     (case map_of (copied s) cp of
        None \<Rightarrow> Inl (EEException ''no class property'')
      | Some l \<Rightarrow> Inr (\<lambda>_. l))"
  by (simp add: demo_platform_def)

lemma demo_composite:
  "\<exists>cimg. composite_image demo_platform = Inr cimg \<and>
     pixel_values cimg (0, 0) =
       Some [(''B2'', 3/50), (''B3'', 2/25), (''B4'', 1/5), (''B8'', 1/2), (''NDVI'', 3/7)]"
  by (simp add: composite_image_def demo_collection bind_res_def mask_s2_clouds_def select1_def
      clear_scene_def cloudy_scene_def add_ndvi_def median_def
      FEATURE_BANDS_def BANDS_def addBands_def rename_def stack_def divide_img_def updateMask_def
      And_img_def eq_img_def bitwiseAnd_def nd_pixel_def demo_fields)

subsection \<open>The emptiness check\<close>

lemma str_0: "str 0 = ''0''"
  by code_simp

lemma demo_empty: "s2_collection empty_platform = []"
  by (simp add: s2_collection_def empty_platform_def)

text \<open>
  Claim C1. Whatever the platform returns for the configured bounds, dates and cloud limit,
  if that filtered collection holds no scene the run stops with the script's
  \<^verbatim>\<open>ValueError\<close> (``The GEE image collection is empty'') right after it has printed the
  number of scenes found: the lines of sections 4 to 6 are never printed, so neither the
  composite nor the classifier is reached, and the run has an error in place of artifacts.
\<close>

theorem empty_collection_raises:
  assumes "s2_collection P = []"
  shows "pipeline P =
           ([CHR 0x0A # ''Step 2: Configuring project parameters...'',
             CHR 0x0A # ''Step 3: Preparing Sentinel-2 image and features...'',
             ''   - Found 0 images for the composite.''],
            Inl (ValueError ''The GEE image collection is empty. Try expanding the date range.''))"
  using assms by (simp add: pipeline_def Let_def str_0)

theorem empty_collection_raises_witness:
  "pipeline empty_platform =
           ([CHR 0x0A # ''Step 2: Configuring project parameters...'',
             CHR 0x0A # ''Step 3: Preparing Sentinel-2 image and features...'',
             ''   - Found 0 images for the composite.''],
            Inl (ValueError ''The GEE image collection is empty. Try expanding the date range.''))"
  using empty_collection_raises [OF demo_empty] .

lemma mask_s2_clouds_nonneg:
  assumes "mask_s2_clouds img = Inr m" and "map_of m n = Some r" and "r p = Some v"
  shows "0 \<le> v"
proof -
  obtain qa where qa: "map_of img ''QA60'' = Some qa"
    using assms(1) by (auto simp: mask_s2_clouds_def select1_def split: option.splits)
  obtain r0 where r: "r = (\<lambda>p. case qa p of None \<Rightarrow> None
                             | Some q \<Rightarrow> if bit q 10 \<or> bit q 11 then None
                                         else map_option (\<lambda>v. real v / 10000) (r0 p))"
    using mask_s2_clouds_band [OF qa assms(1), of n] assms(2)
    by (cases "map_of img n") auto
  show ?thesis using assms(3) unfolding r by (auto split: option.splits if_splits)
qed

text \<open>
  Claim C2. On a scene that went through \<^verbatim>\<open>mask_s2_clouds\<close>, at every pixel whose
  near-infrared value \<open>nir\<close> (band B8) and red value \<open>red\<close> (band B4) do not sum to
  zero, the band \<^verbatim>\<open>NDVI\<close> that \<^verbatim>\<open>add_ndvi\<close> adds is \<open>(nir - red) / (nir + red)\<close>;
  for \<open>nir = 0.5\<close> and \<open>red = 0.2\<close> that value is within 0.0001 of 0.4286.
\<close>

theorem ndvi_is_normalized_difference:
  assumes "mask_s2_clouds img = Inr m"
    and "map_of img ''NDVI'' = None"
    and "map_of m ''B8'' = Some b8" and "map_of m ''B4'' = Some b4"
    and "b8 p = Some nir" and "b4 p = Some red"
    and "nir + red \<noteq> 0"
  shows "\<exists>out nd. add_ndvi P m = Inr out \<and> map_of out ''NDVI'' = Some nd \<and>
           nd p = Some ((nir - red) / (nir + red)) \<and>
           (nir = 0.5 \<and> red = 0.2 \<longrightarrow> \<bar>(nir - red) / (nir + red) - 0.4286\<bar> \<le> 0.0001)"
proof -
  obtain qa where qa: "map_of img ''QA60'' = Some qa"
    using assms(1) by (auto simp: mask_s2_clouds_def select1_def split: option.splits)
  have none: "map_of m ''NDVI'' = None"
    using mask_s2_clouds_band [OF qa assms(1), of "''NDVI''"] assms(2) by simp
  have nn: "0 \<le> nir" "0 \<le> red"
    using mask_s2_clouds_nonneg [OF assms(1)] assms(3-6) by blast+
  let ?nd = "\<lambda>p. nd_pixel (nd_zero P) (b8 p) (b4 p)"
  have out: "add_ndvi P m = Inr (m @ [(''NDVI'', ?nd)])"
    by (rule add_ndvi_Inr [OF assms(3,4)])
  have look: "map_of (m @ [(''NDVI'', ?nd)]) ''NDVI'' = Some ?nd"
    using none by (simp add: map_add_def)
  have val: "?nd p = Some ((nir - red) / (nir + red))"
    using nn assms(5-7) by (simp add: nd_pixel_def)
  have "\<bar>(0.5 - 0.2) / (0.5 + 0.2) - 0.4286\<bar> \<le> (0.0001::real)"
    by simp
  then have num: "nir = 0.5 \<and> red = 0.2 \<longrightarrow> \<bar>(nir - red) / (nir + red) - 0.4286\<bar> \<le> 0.0001"
    by blast
  show ?thesis using out look val num by blast
qed

text \<open>
  Claim C3. At a pixel whose quality word is \<open>q\<close>, every band of the result of
  \<^verbatim>\<open>mask_s2_clouds\<close> is masked when bit 10 or bit 11 of \<open>q\<close> is set, and otherwise
  holds the stored pixel (divided by 10000).
\<close>

theorem mask_s2_clouds_excludes:
  assumes "map_of img ''QA60'' = Some qa" and "map_of img n = Some r" and "qa p = Some q"
  shows "\<exists>out r'. mask_s2_clouds img = Inr out \<and> map_of out n = Some r' \<and>
           r' p = (if bit q 10 \<or> bit q 11 then None else map_option (\<lambda>v. real v / 10000) (r p))"
proof -
  let ?out = "divide_img (updateMask img (cloud_mask (''QA60'', qa))) 10000"
  have m: "mask_s2_clouds img = Inr ?out" by (rule mask_s2_clouds_Inr [OF assms(1)])
  show ?thesis
    using mask_s2_clouds_band [OF assms(1) m, of n] m assms(2,3) by simp
qed

theorem mask_s2_clouds_excludes_witness:
  "(\<exists>out r'. mask_s2_clouds cloudy_scene = Inr out \<and> map_of out ''B4'' = Some r' \<and>
       r' (0, 0) = None) \<and>
   (\<exists>out r'. mask_s2_clouds clear_scene = Inr out \<and> map_of out ''B4'' = Some r' \<and>
       r' (0, 0) = Some (1 / 5))"
proof -
  have "bit (1024::nat) 10" by (simp add: bit_iff_odd)
  moreover have "\<not> bit (0::nat) 10 \<and> \<not> bit (0::nat) 11" by simp
  ultimately show ?thesis
    using mask_s2_clouds_excludes [of cloudy_scene "\<lambda>p. Some 1024" "''B4''" "\<lambda>p. Some 9000" "(0, 0)" 1024]
      mask_s2_clouds_excludes [of clear_scene "\<lambda>p. Some 0" "''B4''" "\<lambda>p. Some 2000" "(0, 0)" 0]
    by (simp add: cloudy_scene_def clear_scene_def)
qed

theorem ndvi_is_normalized_difference_witness:
  "\<exists>m out nd. mask_s2_clouds clear_scene = Inr m \<and> add_ndvi demo_platform m = Inr out \<and>
      map_of out ''NDVI'' = Some nd \<and> nd (0, 0) = Some (3 / 7) \<and>
      \<bar>3 / 7 - 0.4286\<bar> \<le> (0.0001::real)"
proof -
  have qa: "map_of clear_scene ''QA60'' = Some (\<lambda>p. Some 0)" by (simp add: clear_scene_def)
  let ?m = "divide_img (updateMask clear_scene (cloud_mask (''QA60'', \<lambda>p. Some 0))) 10000"
  have m: "mask_s2_clouds clear_scene = Inr ?m" by (rule mask_s2_clouds_Inr [OF qa])
  have nd: "map_of clear_scene ''NDVI'' = None" by (simp add: clear_scene_def)
  have b8: "map_of ?m ''B8'' = Some (\<lambda>p. Some 0.5)"
    using mask_s2_clouds_band [OF qa m, of "''B8''"] by (simp add: clear_scene_def)
  have b4: "map_of ?m ''B4'' = Some (\<lambda>p. Some 0.2)"
    using mask_s2_clouds_band [OF qa m, of "''B4''"] by (simp add: clear_scene_def)
  have ne: "(0.5::real) + 0.2 \<noteq> 0" by simp
  from ndvi_is_normalized_difference [OF m nd b8 b4 refl refl ne, of demo_platform "(0, 0)"]
  show ?thesis using m by auto
qed

theorem composite_is_median_of_rescaled_witness:
  "\<exists>cimg r. composite_image demo_platform = Inr cimg \<and> map_of cimg ''B4'' = Some r \<and>
      r (0, 0) = Some (1 / 5)"
proof -
  have ne: "s2_collection demo_platform \<noteq> []" by (simp add: demo_collection)
  have bands: "\<And>img n. img \<in> set (s2_collection demo_platform) \<Longrightarrow> n \<in> set (''QA60'' # BANDS) \<Longrightarrow>
                 map_of img n \<noteq> None"
    by (auto simp: demo_collection BANDS_def clear_scene_def cloudy_scene_def)
  have b: "''B4'' \<in> set BANDS" by (simp add: BANDS_def)
  have "bit (1024::nat) 10" by (simp add: bit_iff_odd)
  then have st: "List.map_filter (\<lambda>img. reflectance img ''B4'' (0, 0)) (s2_collection demo_platform)
              = [1 / 5]"
    by (simp add: demo_collection reflectance_def clear_scene_def cloudy_scene_def)
  from composite_is_median_of_rescaled [OF ne bands b, THEN conjunct2]
  obtain cimg r where c: "composite_image demo_platform = Inr cimg" "map_of cimg ''B4'' = Some r"
    and r: "\<forall>p. r p = (case List.map_filter (\<lambda>img. reflectance img ''B4'' p)
                              (s2_collection demo_platform) of
                         [] \<Rightarrow> None
                       | v # vs \<Rightarrow> Some (median_reducer demo_platform (v # vs)))"
    by blast
  have "r (0, 0) = Some (1 / 5)"
    by (simp add: r [rule_format, of "(0, 0)"] st demo_fields)
  then show ?thesis using c by blast
qed

subsection \<open>Sampling, classification, edges and vectors\<close>

lemma map_of_filter_key:
  "map_of (filter (\<lambda>(k, v). k \<in> A) xs) k = (if k \<in> A then map_of xs k else None)"
  by (induction xs) auto

lemma sampleRegion_copied:
  assumes "s \<in> set (sampleRegion P img props sc ts f)"
  shows "copied s = filter (\<lambda>(k, v). k \<in> set props) (properties f)"
  using assms by (auto simp: sampleRegion_def List.map_filter_def)


lemma training_data_Inr:
  "composite_image P = Inr cimg \<Longrightarrow>
     training_data P = Inr (sampleRegions P cimg ground_truth [CLASS_PROPERTY] 10 4)"
  by (simp add: training_data_def bind_res_def)


lemma classification_map_cases:
  assumes "classification_map P = Inr m"
  obtains cimg c where "composite_image P = Inr cimg"
    and "smileRandomForest P 20 (sampleRegions P cimg ground_truth [CLASS_PROPERTY] 10 4)
           CLASS_PROPERTY FEATURE_BANDS = Inr c"
    and "classifier P = Inr c"
    and "m = classify cimg c"
  using assms
  by (auto simp: classification_map_def classifier_def training_data_def bind_res_def
      split: sum.splits)

lemma edges_cases:
  assumes "edges P = Inr e"
  obtains m where "classification_map P = Inr m" and "e = CannyEdgeDetector P m 0.1 1"
  using assms by (auto simp: edges_def bind_res_def split: sum.splits)

lemma demo_run:
  "\<exists>cimg c m e.
     composite_image demo_platform = Inr cimg \<and>
     training_data demo_platform = Inr (sampleRegions demo_platform cimg ground_truth [CLASS_PROPERTY] 10 4) \<and>
     classifier demo_platform = Inr c \<and>
     classification_map demo_platform = Inr m \<and> snd m (0, 0) = Some 1 \<and>
     edges demo_platform = Inr e \<and> snd e (0, 0) = Some 1 \<and> snd e (1, 0) = Some (- 1)"
proof -
  from demo_composite obtain cimg where cimg: "composite_image demo_platform = Inr cimg"
    and px: "pixel_values cimg (0, 0) =
       Some [(''B2'', 3/50), (''B3'', 2/25), (''B4'', 1/5), (''B8'', 1/2), (''NDVI'', 3/7)]"
    by blast
  let ?td = "sampleRegions demo_platform cimg ground_truth [CLASS_PROPERTY] 10 4"
  have td: "training_data demo_platform = Inr ?td" by (rule training_data_Inr [OF cimg])
  have c: "smileRandomForest demo_platform 20 ?td CLASS_PROPERTY FEATURE_BANDS = Inr (\<lambda>_. 1)"
    by (simp add: sampleRegions_def sampleRegion_def ground_truth_def demo_fields px
        demo_forest CLASS_PROPERTY_def)
  then have cl: "classifier demo_platform = Inr (\<lambda>_. 1)"
    by (simp add: classifier_def td bind_res_def)
  have m: "classification_map demo_platform = Inr (classify cimg (\<lambda>_. 1))"
    by (simp add: classification_map_def cimg cl bind_res_def)
  have e: "edges demo_platform = Inr (CannyEdgeDetector demo_platform (classify cimg (\<lambda>_. 1)) 0.1 1)"
    by (simp add: edges_def m bind_res_def)
  show ?thesis
    using cimg td cl m e by (simp add: classify_def px demo_fields)
qed

text \<open>
  Claim C4. \<^verbatim>\<open>binary_edges\<close> is an integer band that holds 1 wherever the edge strength
  is strictly positive and 0 wherever it is zero or negative.
\<close>

theorem binary_edges_threshold:
  assumes "edges P = Inr e"
  shows "\<exists>b. binary_edges P = Inr b \<and>
           (\<forall>p v. snd e p = Some v \<longrightarrow>
              (0 < v \<longrightarrow> snd b p = Some 1) \<and> (v \<le> 0 \<longrightarrow> snd b p = Some 0))"
  using assms by (simp add: binary_edges_def bind_res_def gt_img_def)

theorem binary_edges_threshold_witness:
  "\<exists>e b. edges demo_platform = Inr e \<and> binary_edges demo_platform = Inr b \<and>
      snd e (0, 0) = Some 1 \<and> snd b (0, 0) = Some 1 \<and>
      snd e (1, 0) = Some (- 1) \<and> snd b (1, 0) = Some 0"
proof -
  from demo_run obtain e where e: "edges demo_platform = Inr e"
    and v: "snd e (0, 0) = Some 1" "snd e (1, 0) = Some (- 1)"
    by blast
  from binary_edges_threshold [OF e] obtain b where b: "binary_edges demo_platform = Inr b"
    and t: "\<forall>p v. snd e p = Some v \<longrightarrow>
              (0 < v \<longrightarrow> snd b p = Some 1) \<and> (v \<le> 0 \<longrightarrow> snd b p = Some 0)"
    by blast
  have "snd b (0, 0) = Some 1" using t [rule_format, OF v(1)] by simp
  moreover have "snd b (1, 0) = Some 0" using t [rule_format, OF v(2)] by simp
  ultimately show ?thesis using e b v by blast
qed

lemma gt_img_binary:
  assumes "\<And>p. snd b p \<in> {None, Some 0, Some 1}"
  shows "gt_img b (0::nat) = b"
proof -
  have "map_option (\<lambda>v. if 0 < v then 1 else 0) (snd b p) = snd b p" for p
    using assms [of p] by auto
  then show ?thesis by (simp add: gt_img_def prod_eq_iff)
qed

lemma gt_img_range: "snd (gt_img e c) p \<in> {None, Some 0, Some 1}"
  by (cases "snd e p") (simp_all add: gt_img_def)

text \<open>
  Claim C5. Thresholding at zero is idempotent: thresholding a thresholded band gives the same
  band, a band whose pixels are all 0 or 1 is left as it is, and so is \<^verbatim>\<open>binary_edges\<close>.
\<close>

theorem binarization_idempotent:
  "gt_img (gt_img e (0::real)) 0 = gt_img e 0 \<and>
   ((\<forall>p. snd b p \<in> {None, Some 0, Some 1}) \<longrightarrow> gt_img b (0::nat) = b) \<and>
   (binary_edges P = Inr b' \<longrightarrow> gt_img b' 0 = b')"
proof (intro conjI impI)
  show "gt_img (gt_img e (0::real)) 0 = gt_img e 0"
    by (rule gt_img_binary) (rule gt_img_range)
  show "gt_img b 0 = b" if "\<forall>p. snd b p \<in> {None, Some 0, Some 1}"
    by (rule gt_img_binary) (use that in blast)
  show "gt_img b' 0 = b'" if "binary_edges P = Inr b'"
  proof -
    from that obtain e where "b' = gt_img e (0::real)"
      by (auto simp: binary_edges_def bind_res_def split: sum.splits)
    then show ?thesis using gt_img_binary [OF gt_img_range] by simp
  qed
qed

theorem binarization_idempotent_witness:
  "gt_img (''edges'', \<lambda>p. if p = (0, 0) then Some (1::nat) else Some 0) 0
     = (''edges'', \<lambda>p. if p = (0, 0) then Some (1::nat) else Some 0) \<and>
   (\<exists>b'. binary_edges demo_platform = Inr b' \<and> gt_img b' 0 = b')"
proof -
  from demo_run obtain e where e: "edges demo_platform = Inr e" by blast
  then have b: "binary_edges demo_platform = Inr (gt_img e 0)"
    by (simp add: binary_edges_def bind_res_def)
  have r: "\<forall>p. snd (''edges'', \<lambda>p. if p = (0, 0) then Some 1 else Some (0::nat)) p
            \<in> {None, Some 0, Some 1}"
    by simp
  note t = binarization_idempotent
    [of "(''edges'', \<lambda>p. Some 1)" "(''edges'', \<lambda>p. if p = (0, 0) then Some 1 else Some 0)"
        demo_platform "gt_img e 0"]
  have "gt_img (''edges'', \<lambda>p. if p = (0, 0) then Some (1::nat) else Some 0) 0
          = (''edges'', \<lambda>p. if p = (0, 0) then Some (1::nat) else Some 0)"
    by (rule t [THEN conjunct2, THEN conjunct1, THEN mp, OF r])
  moreover have "gt_img (gt_img e 0) 0 = gt_img e 0"
    by (rule t [THEN conjunct2, THEN conjunct2, THEN mp, OF b])
  ultimately show ?thesis using b by blast
qed

text \<open>
  Claim C6. The training data is the samples of the four ground-truth polygons, and every
  sample drawn inside a polygon carries that polygon's \<^verbatim>\<open>landcover\<close> value.
\<close>

theorem sampling_preserves_labels:
  assumes "composite_image P = Inr cimg"
  shows "training_data P =
           Inr (concat (map (sampleRegion P cimg [''landcover''] 10 4) ground_truth)) \<and>
         (\<forall>f s. s \<in> set (sampleRegion P cimg [''landcover''] 10 4 f) \<longrightarrow>
            map_of (copied s) ''landcover'' = map_of (properties f) ''landcover'')"
proof (intro conjI allI impI)
  show "training_data P = Inr (concat (map (sampleRegion P cimg [''landcover''] 10 4) ground_truth))"
    using training_data_Inr [OF assms] by (simp add: sampleRegions_def CLASS_PROPERTY_def)
next
  fix f s
  assume s: "s \<in> set (sampleRegion P cimg [''landcover''] 10 4 f)"
  show "map_of (copied s) ''landcover'' = map_of (properties f) ''landcover''"
    unfolding sampleRegion_copied [OF s] map_of_filter_key by simp
qed

theorem sampling_preserves_labels_witness:
  "\<exists>cimg s. composite_image demo_platform = Inr cimg \<and>
      s \<in> set (sampleRegion demo_platform cimg [''landcover''] 10 4 (ground_truth ! 0)) \<and>
      map_of (properties (ground_truth ! 0)) ''landcover'' = Some 1 \<and>
      map_of (copied s) ''landcover'' = Some 1"
proof -
  from demo_composite obtain cimg where cimg: "composite_image demo_platform = Inr cimg"
    and px: "pixel_values cimg (0, 0) =
       Some [(''B2'', 3/50), (''B3'', 2/25), (''B4'', 1/5), (''B8'', 1/2), (''NDVI'', 3/7)]"
    by blast
  let ?f = "ground_truth ! 0"
  have l: "map_of (properties ?f) ''landcover'' = Some 1"
    by (simp add: ground_truth_def)
  obtain s where s: "s \<in> set (sampleRegion demo_platform cimg [''landcover''] 10 4 ?f)"
    by (auto simp: sampleRegion_def demo_fields px)
  from sampling_preserves_labels [OF cimg, THEN conjunct2, rule_format, OF s]
  have "map_of (copied s) ''landcover'' = Some 1" using l by simp
  then show ?thesis using cimg s l by blast
qed









text \<open>
  Claim C8. The vectoriser receives the integer band \<^verbatim>\<open>binary_edges\<close>, eight-connected,
  with the counting reducer, over the area of interest, at scale 10, the scale at which the
  training samples are drawn.
\<close>

theorem vectorization_parameters:
  assumes "edges P = Inr e"
  shows "\<exists>cimg. composite_image P = Inr cimg \<and>
           training_data P = Inr (sampleRegions P cimg ground_truth [''landcover''] 10 4) \<and>
           field_boundaries P =
             Inr (reduceToVectors P (gt_img e 0)
                    \<lparr>scale = 10, geometry = Rectangle [5.3, 52.4, 5.7, 52.6],
                     eightConnected = True, labelProperty = ''label'', reducer = countEvery\<rparr>)"
proof -
  from assms obtain m where m: "classification_map P = Inr m" by (rule edges_cases)
  then obtain cimg where cimg: "composite_image P = Inr cimg" by (rule classification_map_cases)
  have "field_boundaries P =
             Inr (reduceToVectors P (gt_img e 0)
                    \<lparr>scale = 10, geometry = Rectangle [5.3, 52.4, 5.7, 52.6],
                     eightConnected = True, labelProperty = ''label'', reducer = countEvery\<rparr>)"
    using assms by (simp add: field_boundaries_def binary_edges_def bind_res_def AOI_def)
  then show ?thesis
    using cimg training_data_Inr [OF cimg] by (simp add: CLASS_PROPERTY_def)
qed

theorem vectorization_parameters_witness:
  "\<exists>e. edges demo_platform = Inr e \<and>
      field_boundaries demo_platform =
        Inr [\<lparr>geom = Rectangle [5.3, 52.4, 5.7, 52.6],
              properties = [(''label'', 1), (''count'', 1)]\<rparr>]"
proof -
  from demo_run obtain e where e: "edges demo_platform = Inr e" by blast
  from vectorization_parameters [OF e]
  show ?thesis using e by (auto simp: demo_fields)
qed

text \<open>The ground truth is four polygons, two labelled 1 (field) and two labelled 0.\<close>

lemma ground_truth_classes:
  "length ground_truth = 4 \<and>
   length (filter (\<lambda>f. map_of (properties f) ''landcover'' = Some 1) ground_truth) = 2 \<and>
   length (filter (\<lambda>f. map_of (properties f) ''landcover'' = Some 0) ground_truth) = 2"
  by (simp add: ground_truth_def)

end
